theory Spec2Isabelle
  imports
    Complex_Main
    "HOL-Library.Char_ord"
    "HOL-Library.List_Lexorder"
    "HOL-Library.Product_Lexorder"
    "HOL-Library.Multiset"
begin

section \<open>Strings and values\<close>

text \<open>
  A JavaScript string is modelled as a \<^typ>\<open>string\<close> (a list of 8-bit characters), which
  covers ASCII text; \<open>toLowerCase\<close> acts on the letters A to Z. A field value of a row is a
  \<^typ>\<open>string option\<close>: \<open>None\<close> is \<open>undefined\<close> (or \<open>null\<close>), and the dataset is
  taken to hold string values, as the data model of the specification says.
\<close>

definition toLowerCase_char :: "char \<Rightarrow> char" where
  "toLowerCase_char c =
     (let n = (of_char c :: nat) in if 65 \<le> n \<and> n \<le> 90 then char_of (n + 32) else c)"

definition toLowerCase :: "string \<Rightarrow> string" where
  "toLowerCase s = map toLowerCase_char s"

text \<open>\<open>v || ''\<close>: the value when it is truthy, the empty string otherwise.\<close>

definition or_empty :: "string option \<Rightarrow> string" where
  "or_empty v = (case v of None \<Rightarrow> [] | Some s \<Rightarrow> s)"

text \<open>Truthiness of a field value: \<open>undefined\<close> and \<open>''\<close> are falsy.\<close>

definition truthy :: "string option \<Rightarrow> bool" where
  "truthy v = (case v of None \<Rightarrow> False | Some s \<Rightarrow> s \<noteq> [])"

text \<open>\<open>function normalize(str) { return (str || '').toString().toLowerCase(); }\<close>\<close>

definition normalize :: "string option \<Rightarrow> string" where
  "normalize str = toLowerCase (or_empty str)"

text \<open>\<open>s.startsWith(sub)\<close> and \<open>s.includes(sub)\<close> (the latter as \<open>str_includes\<close>).\<close>

fun startsWith :: "string \<Rightarrow> string \<Rightarrow> bool" where
  "startsWith s [] = True"
| "startsWith [] (c # cs) = False"
| "startsWith (x # xs) (c # cs) = (x = c \<and> startsWith xs cs)"

fun str_includes :: "string \<Rightarrow> string \<Rightarrow> bool" where
  "str_includes [] sub = startsWith [] sub"
| "str_includes (x # xs) sub = (startsWith (x # xs) sub \<or> str_includes xs sub)"

text \<open>
  \<open>/(a|b|...)/.test(s)\<close> for a pattern that is an alternation of literal strings: some
  alternative occurs in \<open>s\<close>.
\<close>

definition test_alternatives :: "string list \<Rightarrow> string \<Rightarrow> bool" where
  "test_alternatives alts s = list_ex (str_includes s) alts"

text \<open>\<open>s.replaceAll(c, rep)\<close> for a pattern of one character.\<close>

definition replaceAll :: "char \<Rightarrow> string \<Rightarrow> string \<Rightarrow> string" where
  "replaceAll c rep s = concat (map (\<lambda>x. if x = c then rep else [x]) s)"

section \<open>Small utilities\<close>

text \<open>
  \<^verbatim>\<open>
  function escapeHtml(s) {
    return (s ?? '').toString()
      .replaceAll('&','&amp;').replaceAll('<','&lt;').replaceAll('>','&gt;')
      .replaceAll('"','&quot;').replaceAll("'", '&#039;');
  }
  function escapeAttr(s){ return escapeHtml(s).replaceAll(' ', '%20'); }
  \<close>
  Here \<open>s ?? ''\<close> only replaces \<open>undefined\<close> and \<open>null\<close>, which \<^const>\<open>or_empty\<close> does.
\<close>

definition escapeHtml :: "string option \<Rightarrow> string" where
  "escapeHtml s =
     replaceAll (CHR 0x27) ''&#039;''
       (replaceAll (CHR 0x22) ''&quot;''
         (replaceAll CHR ''>'' ''&gt;''
           (replaceAll CHR ''<'' ''&lt;''
             (replaceAll CHR ''&'' ''&amp;'' (or_empty s)))))"

definition escapeAttr :: "string option \<Rightarrow> string" where
  "escapeAttr s = replaceAll CHR '' '' ''%20'' (escapeHtml s)"






section \<open>Dates\<close>

text \<open>
  \<open>new Date(s)\<close> is the JavaScript runtime's date parser, whose accepted formats depend on
  the browser. It is a parameter \<open>parse\<close> of the model: \<open>parse s\<close> is the time value in
  milliseconds since the epoch, or \<open>None\<close> for an invalid date. The current moment
  \<open>new Date()\<close> is the parameter \<open>now\<close>, in milliseconds.

  \<^verbatim>\<open>
  function safeDate(s) {
    if (!s) return null;
    const d = new Date(s);
    return isNaN(d) ? null : d;
  }
  function daysUntil(dateStr) {
    const d = safeDate(dateStr);
    if (!d) return null;
    const ms = d - new Date();
    return Math.ceil(ms / (1000 * 60 * 60 * 24));
  }
  \<close>
\<close>

type_synonym date_parser = "string \<Rightarrow> int option"

definition safeDate :: "date_parser \<Rightarrow> string option \<Rightarrow> int option" where
  "safeDate parse s =
     (case s of None \<Rightarrow> None | Some t \<Rightarrow> if t = [] then None else parse t)"

text \<open>\<open>Math.ceil(ms / d)\<close> for integers \<open>ms\<close> and a positive \<open>d\<close>.\<close>

definition ceil_div :: "int \<Rightarrow> int \<Rightarrow> int" where
  "ceil_div ms d = - ((- ms) div d)"

definition daysUntil :: "date_parser \<Rightarrow> int \<Rightarrow> string option \<Rightarrow> int option" where
  "daysUntil parse now dateStr =
     (case safeDate parse dateStr of
        None \<Rightarrow> None
      | Some d \<Rightarrow> (let ms = d - now in Some (ceil_div ms (1000 * 60 * 60 * 24))))"

section \<open>Records and the dataset\<close>

text \<open>
  A raw row and a normalised record are JavaScript objects read by field name; a field
  that is absent reads as \<open>undefined\<close>. The identifier \<open>_id\<close> of a record is the field
  \<open>row_id\<close>.
\<close>

type_synonym row = "string \<Rightarrow> string option"

record scholarship =
  field :: row
  row_id :: string

text \<open>The parsed dataset file: either list may be missing.\<close>

record payload =
  headers :: "string list option"
  data :: "row list option"

text \<open>
  \<^verbatim>\<open>
  function buildId(row) {
    return normalize(row['Scholarship Name']) + '|' + (row['Application Closes'] || '');
  }
  \<close>
\<close>

definition buildId :: "row \<Rightarrow> string" where
  "buildId r = normalize (r ''Scholarship Name'') @ ''|'' @ or_empty (r ''Application Closes'')"

text \<open>
  The normaliser of \<open>init\<close>:
  \<^verbatim>\<open>
  RAW = (json.data || []).map(row => {
    const obj = {};
    (json.headers || []).forEach(h => { obj[h] = row[h]; });
    obj._id = buildId(obj);
    return obj;
  });
  \<close>
\<close>

definition copy_fields :: "string list \<Rightarrow> row \<Rightarrow> row" where
  "copy_fields hs r = fold (\<lambda>h obj. obj(h := r h)) hs (\<lambda>h. None)"

definition init_RAW :: "payload \<Rightarrow> scholarship list" where
  "init_RAW json =
     map (\<lambda>r. let obj = copy_fields (case headers json of None \<Rightarrow> [] | Some hs \<Rightarrow> hs) r
              in \<lparr>field = obj, row_id = buildId obj\<rparr>)
       (case data json of None \<Rightarrow> [] | Some d \<Rightarrow> d)"

section \<open>The query engine\<close>

text \<open>The values of the input widgets that \<open>filterRows\<close> and \<open>render\<close> read.\<close>

record controls =
  year_value :: string
  nonUS_value :: string
  degree_value :: string
  search_value :: string
  sort_value :: string

definition yrMatch :: "string \<Rightarrow> scholarship \<Rightarrow> bool" where
  "yrMatch year r =
     (year = [] \<or>
      list_ex (\<lambda>v. str_includes (normalize v) year)
        [field r ''Eligibility - Grade'', field r ''Scholarship Target Audience''])"

definition degMatch :: "string \<Rightarrow> scholarship \<Rightarrow> bool" where
  "degMatch degree r =
     (degree = [] \<or>
      list_ex (\<lambda>v. str_includes (normalize v) degree)
        [field r ''Eligibility - Intended Level of Study'', field r ''Scholarship Target Audience''])"

text \<open>
  The three patterns of the citizenship logic, each an alternation of literals
  (\<open>non[- ]?us\<close> stands for three of them, and \<open>u\.s\. citizen\<close> for the literal
  \<open>u.s. citizen\<close>):
  \<^verbatim>\<open>
  /(non[- ]?us|undocumented|daca|international|any citizenship|noncitizen|no citizenship requirement)/
  /(us citizen|u\.s\. citizen|permanent resident|us residency required)/
  /(us citizen|u\.s\. citizen|permanent resident)/
  \<close>
\<close>

definition inclusive_pattern :: "string list" where
  "inclusive_pattern =
     [''nonus'', ''non-us'', ''non us'', ''undocumented'', ''daca'', ''international'',
      ''any citizenship'', ''noncitizen'', ''no citizenship requirement'']"

definition strict_exclusion_pattern :: "string list" where
  "strict_exclusion_pattern =
     [''us citizen'', ''u.s. citizen'', ''permanent resident'', ''us residency required'']"

definition strict_requirement_pattern :: "string list" where
  "strict_requirement_pattern = [''us citizen'', ''u.s. citizen'', ''permanent resident'']"

text \<open>
  \<^verbatim>\<open>
  const citizenshipText = normalize(r['Eligibility - USA Citizenship']);
  let usMatch = true;
  if (nonUS === 'yes') {
    const inclusive = /.../.test(citizenshipText);
    const notStrict = !/.../.test(citizenshipText);
    usMatch = inclusive || notStrict;
  } else if (nonUS === 'no') {
    usMatch = /.../.test(citizenshipText);
  }
  \<close>
\<close>

definition usMatch :: "string \<Rightarrow> scholarship \<Rightarrow> bool" where
  "usMatch nonUS r =
     (let citizenshipText = normalize (field r ''Eligibility - USA Citizenship'') in
      if nonUS = ''yes'' then
        (let inclusive = test_alternatives inclusive_pattern citizenshipText;
             notStrict = (\<not> test_alternatives strict_exclusion_pattern citizenshipText)
         in inclusive \<or> notStrict)
      else if nonUS = ''no'' then test_alternatives strict_requirement_pattern citizenshipText
      else True)"

definition fieldsForQ :: "string list" where
  "fieldsForQ =
     [''Scholarship Name'', ''Scholarship Target Audience'', ''About'', ''Amount'',
      ''Eligbility - Specific HS/College'', ''Eligbility - Subject/Major'',
      ''Eligibility - Grade'', ''Eligibility - GPA'', ''Eligibility - Heritage/Ethnicity'',
      ''Eligibility - Intended Level of Study'', ''Eligibility - Geogrphic Location'',
      ''Eligbility - Financial Need'', ''Application Requirements'']"

definition qMatch :: "string \<Rightarrow> scholarship \<Rightarrow> bool" where
  "qMatch q r = (q = [] \<or> list_ex (\<lambda>k. str_includes (normalize (field r k)) q) fieldsForQ)"

definition filterRows :: "controls \<Rightarrow> scholarship list \<Rightarrow> scholarship list" where
  "filterRows els rows =
     (let year = normalize (Some (year_value els));
          degree = normalize (Some (degree_value els));
          nonUS = nonUS_value els;
          q = normalize (Some (search_value els))
      in filter (\<lambda>r. yrMatch year r \<and> degMatch degree r \<and> usMatch nonUS r \<and> qMatch q r) rows)"

section \<open>Numbers and sorting\<close>

text \<open>
  The numbers a comparator returns: a finite value, an infinity, or \<open>NaN\<close>. A finite
  JavaScript number is modelled by the real number it stands for; the rounding of
  \<open>Number\<close> to a double is monotone, so it does not change which of two amounts is the
  larger, and time values and their differences are integers.
\<close>

datatype jsnum = Finite real | PosInfinity | NegInfinity | NaN

fun js_minus :: "jsnum \<Rightarrow> jsnum \<Rightarrow> jsnum" where
  "js_minus (Finite a) (Finite b) = Finite (a - b)"
| "js_minus NaN y = NaN"
| "js_minus x NaN = NaN"
| "js_minus (Finite a) PosInfinity = NegInfinity"
| "js_minus (Finite a) NegInfinity = PosInfinity"
| "js_minus PosInfinity (Finite b) = PosInfinity"
| "js_minus PosInfinity NegInfinity = PosInfinity"
| "js_minus PosInfinity PosInfinity = NaN"
| "js_minus NegInfinity (Finite b) = NegInfinity"
| "js_minus NegInfinity PosInfinity = NegInfinity"
| "js_minus NegInfinity NegInfinity = NaN"

text \<open>
  \<open>Array.prototype.sort(comparefn)\<close> is stable, and a comparator result that is \<open>NaN\<close>
  counts as \<open>+0\<close>; \<open>x\<close> goes after \<open>y\<close> exactly when \<open>comparefn(x, y) > 0\<close>. For a
  consistent comparator the result is the one stable ordering, which insertion from the
  right computes.
\<close>

definition is_positive :: "jsnum \<Rightarrow> bool" where
  "is_positive v = (case v of Finite x \<Rightarrow> 0 < x | PosInfinity \<Rightarrow> True | NegInfinity \<Rightarrow> False | NaN \<Rightarrow> False)"

fun insert_sorted :: "('a \<Rightarrow> 'a \<Rightarrow> jsnum) \<Rightarrow> 'a \<Rightarrow> 'a list \<Rightarrow> 'a list" where
  "insert_sorted comparefn x [] = [x]"
| "insert_sorted comparefn x (y # ys) =
     (if is_positive (comparefn x y) then y # insert_sorted comparefn x ys else x # y # ys)"

definition array_sort :: "('a \<Rightarrow> 'a \<Rightarrow> jsnum) \<Rightarrow> 'a list \<Rightarrow> 'a list" where
  "array_sort comparefn xs = foldr (insert_sorted comparefn) xs []"

subsection \<open>Amounts\<close>

text \<open>
  \<^verbatim>\<open>
  const amt = s => {
    const m = (s||'').toString().replace(/[, ]/g,'').match(/(\d+)(\.\d+)?/g);
    return m ? Math.max(...m.map(Number)) : 0;
  };
  \<close>
\<close>

definition is_digit :: "char \<Rightarrow> bool" where
  "is_digit c = (CHR ''0'' \<le> c \<and> c \<le> CHR ''9'')"

text \<open>\<open>s.replace(/[, ]/g, '')\<close>\<close>

definition strip_commas_spaces :: "string \<Rightarrow> string" where
  "strip_commas_spaces s = filter (\<lambda>c. c \<noteq> CHR '','' \<and> c \<noteq> CHR '' '') s"

text \<open>
  \<open>s.match(/(\d+)(\.\d+)?/g)\<close>: the matches from left to right, each a longest run of
  digits with, when a dot and a digit follow it, the dot and the longest run of digits
  after it. The empty list stands for \<open>null\<close> (no match).
\<close>

lemma dropWhile_two_shorter:
  "dropWhile P xs = y # z # ys \<Longrightarrow> length (dropWhile Q ys) < Suc (length xs)"
  using length_dropWhile_le [of P xs] length_dropWhile_le [of Q ys] by simp

function match_numbers :: "string \<Rightarrow> string list" where
  "match_numbers [] = []"
| "match_numbers (c # cs) =
     (if is_digit c then
        (let ip = takeWhile is_digit (c # cs); rest = dropWhile is_digit cs in
         case rest of
           d # e # rest' \<Rightarrow>
             if d = CHR ''.'' \<and> is_digit e
             then (ip @ d # takeWhile is_digit (e # rest')) # match_numbers (dropWhile is_digit rest')
             else ip # match_numbers rest
         | _ \<Rightarrow> ip # match_numbers rest)
      else match_numbers cs)"
  by pat_completeness auto
termination
  apply (relation "measure length")
     apply (simp_all add: less_Suc_eq_le length_dropWhile_le)
  apply (metis dropWhile_two_shorter less_Suc_eq_le)
  done

text \<open>\<open>Number(m)\<close> for a match \<open>m\<close>: digits, then perhaps a dot and digits.\<close>

definition digits_value :: "string \<Rightarrow> nat" where
  "digits_value ds = foldl (\<lambda>a c. 10 * a + (of_char c - 48)) 0 ds"

definition Number :: "string \<Rightarrow> real" where
  "Number m =
     (let ip = takeWhile is_digit m; fp = drop (length ip + 1) m
      in of_nat (digits_value ip) + of_nat (digits_value fp) / 10 ^ length fp)"

text \<open>\<open>Math.max(x, ...xs)\<close>: the argument list is never empty where \<open>amt\<close> calls it.\<close>

definition Math_max :: "real \<Rightarrow> real list \<Rightarrow> real" where
  "Math_max x xs = fold max xs x"

definition amt :: "string option \<Rightarrow> real" where
  "amt s =
     (case match_numbers (strip_commas_spaces (or_empty s)) of
        [] \<Rightarrow> 0
      | m # ms \<Rightarrow> Math_max (Number m) (map Number ms))"

subsection \<open>The sort modes of \<open>render\<close>\<close>

text \<open>
  \<^verbatim>\<open>
  if (mode === 'nameAsc') {
    rows.sort((a,b) => (a['Scholarship Name']||'').localeCompare(b['Scholarship Name']||''));
  } else if (mode === 'amountDesc') {
    rows.sort((a,b) => amt(b['Amount']) - amt(a['Amount']));
  } else if (mode === 'closesAsc') {
    rows.sort((a,b) => (safeDate(a['Application Closes'])||Infinity)
                     - (safeDate(b['Application Closes'])||Infinity));
  }
  \<close>
  \<open>localeCompare\<close> is the runtime's collation, a parameter of the model.
\<close>

definition amountDesc :: "scholarship \<Rightarrow> scholarship \<Rightarrow> jsnum" where
  "amountDesc a b = js_minus (Finite (amt (field b ''Amount''))) (Finite (amt (field a ''Amount'')))"

text \<open>\<open>safeDate(s) || Infinity\<close>: a date object is truthy, \<open>null\<close> is not.\<close>

definition date_or_Infinity :: "date_parser \<Rightarrow> string option \<Rightarrow> jsnum" where
  "date_or_Infinity parse s =
     (case safeDate parse s of None \<Rightarrow> PosInfinity | Some d \<Rightarrow> Finite (of_int d))"

definition closesAsc :: "date_parser \<Rightarrow> scholarship \<Rightarrow> scholarship \<Rightarrow> jsnum" where
  "closesAsc parse a b =
     js_minus (date_or_Infinity parse (field a ''Application Closes''))
              (date_or_Infinity parse (field b ''Application Closes''))"

definition nameAsc :: "(string \<Rightarrow> string \<Rightarrow> int) \<Rightarrow> scholarship \<Rightarrow> scholarship \<Rightarrow> jsnum" where
  "nameAsc localeCompare a b =
     Finite (of_int (localeCompare (or_empty (field a ''Scholarship Name''))
                                   (or_empty (field b ''Scholarship Name''))))"

definition sort_rows ::
  "(string \<Rightarrow> string \<Rightarrow> int) \<Rightarrow> date_parser \<Rightarrow> string \<Rightarrow> scholarship list \<Rightarrow> scholarship list" where
  "sort_rows localeCompare parse mode rows =
     (if mode = ''nameAsc'' then array_sort (nameAsc localeCompare) rows
      else if mode = ''amountDesc'' then array_sort amountDesc rows
      else if mode = ''closesAsc'' then array_sort (closesAsc parse) rows
      else rows)"

text \<open>
  The closing date of a record as the sort reads it, and the keys by which the two
  comparators order records: the negated amount, and the closing date with the records
  that have none put last.
\<close>

definition closing :: "date_parser \<Rightarrow> scholarship \<Rightarrow> int option" where
  "closing parse r = safeDate parse (field r ''Application Closes'')"


definition closing_key :: "date_parser \<Rightarrow> scholarship \<Rightarrow> bool \<times> int" where
  "closing_key parse r = (case closing parse r of None \<Rightarrow> (True, 0) | Some d \<Rightarrow> (False, d))"

section \<open>The presentation layer\<close>

text \<open>A template literal of several lines: its lines, joined by a line feed.\<close>

fun join_lines :: "string list \<Rightarrow> string" where
  "join_lines [] = []"
| "join_lines [l] = l"
| "join_lines (l # m # ls) = l @ [CHR 0x0A] @ join_lines (m # ls)"

text \<open>\<open>a || b\<close> on field values.\<close>

definition or_else :: "string option \<Rightarrow> string option \<Rightarrow> string option" where
  "or_else a b = (if truthy a then a else b)"

text \<open>
  \<^verbatim>\<open>
  const days = daysUntil(closes);
  const deadlineBadge = days !== null && days <= 21
    ? `<span class="badge-deadline">Deadline Soon</span>` : '';
  \<close>
\<close>

definition badge_markup :: string where
  \<open>badge_markup = ''<span class="badge-deadline">Deadline Soon</span>''\<close>

definition deadlineBadge :: "date_parser \<Rightarrow> int \<Rightarrow> scholarship \<Rightarrow> string" where
  "deadlineBadge parse now r =
     (let closes = field r ''Application Closes''
      in case daysUntil parse now closes of
           None \<Rightarrow> []
         | Some days \<Rightarrow> if days \<le> 21 then badge_markup else [])"

text \<open>
  \<^verbatim>\<open>
  const kvItem = (k,v) => (v ? `
    <div class="item">
      <span class="k">${escapeHtml(k)}</span>
      <span class="v">${escapeHtml(v)}</span>
    </div>` : '');
  \<close>
\<close>

definition kvItem :: "string \<Rightarrow> string option \<Rightarrow> string" where
  \<open>kvItem k v =
     (if truthy v then
        join_lines
          [[],
           ''    <div class="item">'',
           ''      <span class="k">'' @ escapeHtml (Some k) @ ''</span>'',
           ''      <span class="v">'' @ escapeHtml v @ ''</span>'',
           ''    </div>'']
      else [])\<close>

text \<open>
  One entry of the chip list, \<open>v && `<span class="chip">...${escapeHtml(v)}...</span>`\<close>,
  after \<open>filter(Boolean)\<close>: the markup when \<open>v\<close> is truthy, nothing otherwise.
\<close>

definition chip :: "string \<Rightarrow> string option \<Rightarrow> string \<Rightarrow> string" where
  \<open>chip before v after =
     (if truthy v then ''<span class="chip">'' @ before @ escapeHtml v @ after @ ''</span>'' else [])\<close>

definition chips :: "scholarship \<Rightarrow> string" where
  "chips r =
     (let level = or_else (field r ''Eligibility - Intended Level of Study'')
                          (field r ''Scholarship Target Audience'');
          grade = field r ''Eligibility - Grade'';
          gpa = field r ''Eligibility - GPA'';
          geo = field r ''Eligibility - Geogrphic Location'';
          need = field r ''Eligbility - Financial Need'';
          major = field r ''Eligbility - Subject/Major''
      in concat
           [chip [] level [],
            chip [] grade [],
            chip ''GPA '' gpa ''+'',
            chip [] geo [],
            chip ''Financial Need: '' need [],
            chip [] major []])"

text \<open>
  The card of a record, the template literal that \<open>renderCard\<close> returns. The star of the
  favourite button is written as its three UTF-8 bytes.
\<close>

definition renderCard :: "date_parser \<Rightarrow> int \<Rightarrow> string set \<Rightarrow> scholarship \<Rightarrow> string" where
  \<open>renderCard parse now FAVS r =
     (let name = or_else (field r ''Scholarship Name'') (Some ''Scholarship'');
          about = field r ''About'';
          website = field r ''Scholarship Website'';
          amount = field r ''Amount'';
          opens = field r ''Application Opens'';
          closes = field r ''Application Closes'';
          numAwards = field r ''Number of awards'';
          favSaved = (if row_id r \<in> FAVS then ''true'' else ''false'')
      in join_lines
           [[],
            ''  <article class="sch-card">'',
            ''    <div class="sch-cover">'',
            ''      '' @ deadlineBadge parse now r,
            ''      <button class="favorite" title="Save to favorites" data-fav="'' @ row_id r
              @ ''" data-saved="'' @ favSaved @ ''">'' @ [CHR 0xE2, CHR 0xAD, CHR 0x90] @ ''</button>'',
            ''      <h3 class="sch-title">'' @ escapeHtml name @ ''</h3>'',
            ''    </div>'',
            [],
            ''    <div class="sch-body">'',
            ''      '' @ (if truthy about then ''<p class="about">'' @ escapeHtml about @ ''</p>'' else []),
            [],
            ''      '' @ (if chips r \<noteq> [] then ''<div class="chips">'' @ chips r @ ''</div>'' else []),
            [],
            ''      <div class="kv">'',
            ''        '' @ kvItem ''Amount'' amount,
            ''        '' @ kvItem ''Awards'' numAwards,
            ''        '' @ kvItem ''Opens'' opens,
            ''        '' @ kvItem ''Closes'' closes,
            ''      </div>'',
            [],
            ''      <div class="sch-actions">'',
            ''        '' @ (if truthy website
                           then ''<a class="btn-link" href="'' @ escapeAttr website
                             @ ''" target="_blank" rel="noopener">Scholarship Website</a>''
                           else []),
            ''        <button class="btn-link secondary" data-fav="'' @ row_id r
              @ ''" data-saved="'' @ favSaved @ ''">''
              @ (if row_id r \<in> FAVS then ''Saved'' else ''Save'') @ ''</button>'',
            ''      </div>'',
            ''    </div>'',
            ''  </article>''])\<close>

text \<open>A length in a template literal: the decimal digits of a natural number.\<close>

function show_nat :: "nat \<Rightarrow> string" where
  "show_nat n = (if n < 10 then [char_of (48 + n)] else show_nat (n div 10) @ [char_of (48 + n mod 10)])"
  by pat_completeness auto
termination
  by (relation "measure id") auto

declare show_nat.simps [simp del]

text \<open>
  \<^verbatim>\<open>
  `${n} result${n===1?'':'s'} ${SHOW_FAVORITES_ONLY ? '(favorites)' : ''}`
  \<close>
\<close>

definition results_text :: "nat \<Rightarrow> string \<Rightarrow> string" where
  "results_text n suffix = show_nat n @ '' result'' @ (if n = 1 then [] else ''s'') @ '' '' @ suffix"

text \<open>
  \<open>render\<close>: filter, sort, restrict to the favourites when that view is active, then the
  count text and the cards. What it writes to the page is returned.
\<close>

record view =
  shown :: "scholarship list"
  count_text :: string
  cards_html :: string

definition render ::
  "(string \<Rightarrow> string \<Rightarrow> int) \<Rightarrow> date_parser \<Rightarrow> int \<Rightarrow> controls \<Rightarrow> scholarship list \<Rightarrow>
   string set \<Rightarrow> bool \<Rightarrow> view" where
  "render localeCompare parse now els RAW FAVS SHOW_FAVORITES_ONLY =
     (let rows = filterRows els RAW;
          rows = sort_rows localeCompare parse (sort_value els) rows;
          rows = (if SHOW_FAVORITES_ONLY then filter (\<lambda>r. row_id r \<in> FAVS) rows else rows)
      in \<lparr>shown = rows,
          count_text = results_text (length rows) (if SHOW_FAVORITES_ONLY then ''(favorites)'' else []),
          cards_html = concat (map (renderCard parse now FAVS) rows)\<rparr>)"

section \<open>The favourites store\<close>

text \<open>
  A favourite is the object \<open>{ id, name, savedAt }\<close> that the click handler stores. The
  object store \<open>favorites\<close> of IndexedDB has the key path \<open>id\<close>: it holds at most one
  entry for a key and a cursor walks the entries in the order of their keys, so it is
  modelled as the list of its entries in key order. \<open>put\<close> replaces the entry with the
  key of its argument or adds one, and \<open>delete\<close> removes the entry with the key.
\<close>

record favorite =
  fav_id :: string
  fav_name :: "string option"
  savedAt :: int

type_synonym object_store = "favorite list"

definition store_put :: "favorite \<Rightarrow> object_store \<Rightarrow> object_store" where
  "store_put fav s = insort_key fav_id fav (filter (\<lambda>f. fav_id f \<noteq> fav_id fav) s)"

definition store_delete :: "string \<Rightarrow> object_store \<Rightarrow> object_store" where
  "store_delete k s = filter (\<lambda>f. fav_id f \<noteq> k) s"

text \<open>What IndexedDB keeps true of an object store: one entry for a key, in key order.\<close>

definition store_ok :: "object_store \<Rightarrow> bool" where
  "store_ok s = (sorted (map fav_id s) \<and> distinct (map fav_id s))"

text \<open>
  \<^verbatim>\<open>
  async function withStore(mode, fn) {
    const db = await openDB();
    return new Promise((resolve, reject) => {
      const tx = db.transaction(STORE, mode);
      const store = tx.objectStore(STORE);
      const res = fn(store);
      tx.oncomplete = () => resolve(res);
      tx.onerror = () => reject(tx.error);
    });
  }
  \<close>
  Whether the database opens and the transaction completes is decided by the browser:
  the parameter \<open>outcome\<close>. A rejected \<open>openDB\<close> rejects \<open>withStore\<close> before the
  transaction starts; a transaction that fails is rolled back, so that the store is as
  before. The result is the resolved value or the error of the rejection, with the store.
\<close>

datatype idb_outcome = Completes | OpenFails | TransactionFails

datatype idb_error = OpenError | TransactionError

definition withStore ::
  "idb_outcome \<Rightarrow> (object_store \<Rightarrow> 'a \<times> object_store) \<Rightarrow> object_store \<Rightarrow>
   (idb_error + 'a) \<times> object_store" where
  "withStore outcome fn db =
     (case outcome of
        OpenFails \<Rightarrow> (Inl OpenError, db)
      | TransactionFails \<Rightarrow> (Inl TransactionError, db)
      | Completes \<Rightarrow> (let (res, db') = fn db in (Inr res, db')))"

text \<open>
  \<^verbatim>\<open>
  async getAll() { return withStore('readonly', store => ... the cursor's values ...); },
  async has(id) { return withStore('readonly', store => ... !!store.get(id) ...); },
  async add(fav) { return withStore('readwrite', s => s.put(fav)); },
  async remove(id) { return withStore('readwrite', s => s.delete(id)); }
  \<close>
\<close>

definition FavDB_getAll :: "idb_outcome \<Rightarrow> object_store \<Rightarrow> (idb_error + favorite list) \<times> object_store" where
  "FavDB_getAll outcome db = withStore outcome (\<lambda>s. (s, s)) db"

definition FavDB_has :: "idb_outcome \<Rightarrow> string \<Rightarrow> object_store \<Rightarrow> (idb_error + bool) \<times> object_store" where
  "FavDB_has outcome k db = withStore outcome (\<lambda>s. (list_ex (\<lambda>f. fav_id f = k) s, s)) db"

definition FavDB_add :: "idb_outcome \<Rightarrow> favorite \<Rightarrow> object_store \<Rightarrow> (idb_error + unit) \<times> object_store" where
  "FavDB_add outcome fav db = withStore outcome (\<lambda>s. ((), store_put fav s)) db"

definition FavDB_remove :: "idb_outcome \<Rightarrow> string \<Rightarrow> object_store \<Rightarrow> (idb_error + unit) \<times> object_store" where
  "FavDB_remove outcome k db = withStore outcome (\<lambda>s. ((), store_delete k s)) db"

section \<open>The favourite toggle\<close>

text \<open>
  The state that the click handler of a favourite button reads and writes: the set
  \<open>FAVORITES\<close>, the flag \<open>SHOW_FAVORITES_ONLY\<close>, the object store, the attribute
  \<open>data-saved\<close> of the clicked button, the number of cards in the document and the count
  text.
\<close>

record page =
  FAVORITES :: "string set"
  SHOW_FAVORITES_ONLY :: bool
  favorites_store :: object_store
  data_saved :: string
  cards :: nat
  results_count :: string

text \<open>How a run of the handler ends: it returns, or its promise is rejected.\<close>

datatype handler_end = Returned | Rejected idb_error | TypeError

text \<open>
  \<^verbatim>\<open>
  if (SHOW_FAVORITES_ONLY && !FAVORITES.has(id)) {
    btn.closest('.sch-card').remove();
    const remaining = document.querySelectorAll('.sch-card').length;
    els.count.textContent = `${remaining} result${remaining===1?'':'s'} (favorites)`;
  }
  \<close>
\<close>

definition after_toggle :: "string \<Rightarrow> page \<Rightarrow> page" where
  "after_toggle k pg =
     (if SHOW_FAVORITES_ONLY pg \<and> k \<notin> FAVORITES pg then
        (let remaining = cards pg - 1
         in pg\<lparr>cards := remaining, results_count := results_text remaining ''(favorites)''\<rparr>)
      else pg)"

text \<open>
  \<^verbatim>\<open>
  btn.addEventListener('click', async () => {
    const id = btn.getAttribute('data-fav');
    const idx = rows.findIndex(r => r._id === id);
    const row = rows[idx] || RAW.find(r => r._id === id);
    const saved = FAVORITES.has(id);
    if (saved) {
      await FavDB.remove(id);
      FAVORITES.delete(id);
      btn.setAttribute('data-saved', 'false');
    } else {
      await FavDB.add({ id, name: row['Scholarship Name'], savedAt: Date.now() });
      FAVORITES.add(id);
      btn.setAttribute('data-saved', 'true');
    }
    ...
  });
  \<close>
  An \<open>await\<close> of a rejected promise throws, which ends the handler there; reading a
  field of \<open>row\<close> throws a \<open>TypeError\<close> when no record has the identifier. \<open>now\<close> is
  \<open>Date.now()\<close>. The two branches of the conditional are \<open>remove_branch\<close> and
  \<open>add_branch\<close>; the statement after it runs when the branch has returned.
\<close>

definition remove_branch :: "idb_outcome \<Rightarrow> string \<Rightarrow> page \<Rightarrow> handler_end \<times> page" where
  "remove_branch outcome k pg =
     (case FavDB_remove outcome k (favorites_store pg) of
        (Inl e, db) \<Rightarrow> (Rejected e, pg\<lparr>favorites_store := db\<rparr>)
      | (Inr u, db) \<Rightarrow>
          (Returned,
           pg\<lparr>favorites_store := db, FAVORITES := FAVORITES pg - {k}, data_saved := ''false''\<rparr>))"

definition add_branch ::
  "idb_outcome \<Rightarrow> int \<Rightarrow> scholarship option \<Rightarrow> string \<Rightarrow> page \<Rightarrow> handler_end \<times> page" where
  "add_branch outcome now row k pg =
     (case row of
        None \<Rightarrow> (TypeError, pg)
      | Some r \<Rightarrow>
          (case FavDB_add outcome
                  \<lparr>fav_id = k, fav_name = field r ''Scholarship Name'', savedAt = now\<rparr>
                  (favorites_store pg) of
             (Inl e, db) \<Rightarrow> (Rejected e, pg\<lparr>favorites_store := db\<rparr>)
           | (Inr u, db) \<Rightarrow>
               (Returned,
                pg\<lparr>favorites_store := db, FAVORITES := insert k (FAVORITES pg),
                    data_saved := ''true''\<rparr>)))"

text \<open>\<open>rows[rows.findIndex(r => r._id === id)] || RAW.find(r => r._id === id)\<close>\<close>

definition find_row :: "scholarship list \<Rightarrow> scholarship list \<Rightarrow> string \<Rightarrow> scholarship option" where
  "find_row rows RAW k =
     (case find (\<lambda>r. row_id r = k) rows of
        Some r \<Rightarrow> Some r
      | None \<Rightarrow> find (\<lambda>r. row_id r = k) RAW)"

definition click_handler ::
  "idb_outcome \<Rightarrow> int \<Rightarrow> scholarship list \<Rightarrow> scholarship list \<Rightarrow> string \<Rightarrow> page \<Rightarrow>
   handler_end \<times> page" where
  "click_handler outcome now rows RAW k pg =
     (let row = find_row rows RAW k;
          saved = (k \<in> FAVORITES pg);
          (ended, pg') = (if saved then remove_branch outcome k pg
                          else add_branch outcome now row k pg)
      in if ended = Returned then (Returned, after_toggle k pg') else (ended, pg'))"

section \<open>Example data\<close>

text \<open>
  A record as the normaliser builds it from a raw row given by its fields, and a date
  parser that knows two dates (their time values are 21 and 22 days after the epoch).
\<close>

definition record_of :: "(string \<times> string) list \<Rightarrow> scholarship" where
  "record_of kvs = \<lparr>field = map_of kvs, row_id = buildId (map_of kvs)\<rparr>"

definition example_parse :: date_parser where
  "example_parse s =
     (if s = ''1970-01-22'' then Some 1814400000
      else if s = ''1970-01-23'' then Some 1900800000
      else None)"

text \<open>A favourite, saved at a given time, and a page that shows it in the favourites view.\<close>

definition example_favorite :: "int \<Rightarrow> favorite" where
  "example_favorite t =
     \<lparr>fav_id = ''stem award|1970-01-22'', fav_name = Some ''STEM Award'', savedAt = t\<rparr>"

definition example_page :: page where
  "example_page =
     \<lparr>FAVORITES = {''stem award|1970-01-22''}, SHOW_FAVORITES_ONLY = True,
      favorites_store = [example_favorite 1], data_saved = ''true'', cards = 1,
      results_count = ''1 result (favorites)''\<rparr>"

section \<open>Properties of the strings\<close>

lemma startsWith_iff: "startsWith s sub \<longleftrightarrow> (\<exists>q. s = sub @ q)"
  by (induction s sub rule: startsWith.induct) auto

lemma str_includes_iff: "str_includes s sub \<longleftrightarrow> (\<exists>p q. s = p @ sub @ q)"
proof (induction s)
  case Nil
  show ?case by (simp add: startsWith_iff)
next
  case (Cons x xs)
  show ?case
  proof
    assume "str_includes (x # xs) sub"
    then consider "startsWith (x # xs) sub" | "str_includes xs sub" by auto
    then show "\<exists>p q. x # xs = p @ sub @ q"
    proof cases
      case 1
      then obtain q where "x # xs = sub @ q" by (auto simp: startsWith_iff)
      then have "x # xs = [] @ sub @ q" by simp
      then show ?thesis by blast
    next
      case 2
      then obtain p q where "xs = p @ sub @ q" using Cons.IH by blast
      then have "x # xs = (x # p) @ sub @ q" by simp
      then show ?thesis by blast
    qed
  next
    assume "\<exists>p q. x # xs = p @ sub @ q"
    then obtain p q where pq: "x # xs = p @ sub @ q" by blast
    show "str_includes (x # xs) sub"
    proof (cases p)
      case Nil
      with pq have "startsWith (x # xs) sub" by (auto simp: startsWith_iff)
      then show ?thesis by simp
    next
      case (Cons y ys)
      with pq have "xs = ys @ sub @ q" by simp
      then have "str_includes xs sub" using Cons.IH by blast
      then show ?thesis by simp
    qed
  qed
qed

lemma str_includes_appendI: "str_includes (p @ sub @ q) sub"
  by (auto simp: str_includes_iff)

lemma str_includes_join_lines:
  "l \<in> set ls \<Longrightarrow> str_includes l sub \<Longrightarrow> str_includes (join_lines ls) sub"
proof (induction ls rule: join_lines.induct)
  case 1
  then show ?case by simp
next
  case (2 l')
  then show ?case by simp
next
  case (3 l' m ls)
  show ?case
  proof (cases "l = l'")
    case True
    with 3 obtain p q where "l' = p @ sub @ q" by (auto simp: str_includes_iff)
    then have "join_lines (l' # m # ls) = p @ sub @ (q @ [CHR 0x0A] @ join_lines (m # ls))" by simp
    then show ?thesis unfolding str_includes_iff by blast
  next
    case False
    with 3 have "str_includes (join_lines (m # ls)) sub" by auto
    then obtain p q where "join_lines (m # ls) = p @ sub @ q" by (auto simp: str_includes_iff)
    then have "join_lines (l' # m # ls) = (l' @ [CHR 0x0A] @ p) @ sub @ q" by simp
    then show ?thesis unfolding str_includes_iff by blast
  qed
qed

section \<open>The deadline badge\<close>

lemma int_le_div_iff:
  fixes d :: int
  assumes d: "0 < d"
  shows "(j \<le> m div d) = (j * d \<le> m)"
proof -
  have eq: "(m div d) * d + m mod d = m" by simp
  have lo: "0 \<le> m mod d" and hi: "m mod d < d" using d by simp_all
  show ?thesis
  proof
    assume "j \<le> m div d"
    then have "j * d \<le> (m div d) * d"
      using d by (simp add: mult_right_mono)
    with eq lo show "j * d \<le> m" by linarith
  next
    assume a: "j * d \<le> m"
    have "(m div d + 1) * d = (m div d) * d + d" by (simp add: algebra_simps)
    with eq hi a have "j * d < (m div d + 1) * d" by linarith
    then have "j < m div d + 1"
      using d by (simp add: mult_less_cancel_right)
    then show "j \<le> m div d" by simp
  qed
qed

lemma ceil_div_le: "0 < d \<Longrightarrow> ceil_div ms d \<le> k \<longleftrightarrow> ms \<le> k * d"
proof -
  assume d: "0 < d"
  have "ceil_div ms d \<le> k \<longleftrightarrow> - k \<le> (- ms) div d"
    unfolding ceil_div_def by linarith
  also have "\<dots> \<longleftrightarrow> (- k) * d \<le> - ms"
    using d by (rule int_le_div_iff)
  finally show ?thesis by simp
qed

lemma deadlineBadge_parsed:
  assumes "field r ''Application Closes'' = Some closes" and "closes \<noteq> []"
    and "parse closes = Some d"
  shows "deadlineBadge parse now r = (if d - now \<le> 21 * 86400000 then badge_markup else [])"
proof -
  have "daysUntil parse now (Some closes) = Some (ceil_div (d - now) 86400000)"
    using assms by (simp add: daysUntil_def safeDate_def)
  moreover have "ceil_div (d - now) 86400000 \<le> 21 \<longleftrightarrow> d - now \<le> 21 * 86400000"
    by (rule ceil_div_le) simp
  ultimately show ?thesis
    using assms by (simp add: deadlineBadge_def)
qed

lemma renderCard_includes_badge:
  "str_includes (renderCard parse now FAVS r) (deadlineBadge parse now r)"
proof -
  have "str_includes (''      '' @ deadlineBadge parse now r @ []) (deadlineBadge parse now r)"
    by (rule str_includes_appendI)
  then have "str_includes (''      '' @ deadlineBadge parse now r) (deadlineBadge parse now r)"
    by simp
  then show ?thesis
    unfolding renderCard_def Let_def
    by (rule str_includes_join_lines [rotated]) simp
qed



text \<open>
  C10. A record whose closing date parses and lies at or before the current moment gets
  the deadline badge, and its card contains it: the condition bounds the number of days
  from above only.
\<close>

theorem deadline_badge_past:
  assumes "field r ''Application Closes'' = Some closes" and "closes \<noteq> []"
    and "parse closes = Some d" and "d \<le> now"
  shows "deadlineBadge parse now r = badge_markup \<and>
         str_includes (renderCard parse now FAVS r) badge_markup"
  using assms deadlineBadge_parsed [of r closes parse d now]
    renderCard_includes_badge [of parse now FAVS r]
  by auto

theorem deadline_badge_past_witness:
  "deadlineBadge example_parse 86400000000 (record_of [(''Application Closes'', ''1970-01-22'')])
     = badge_markup \<and>
   str_includes
     (renderCard example_parse 86400000000 {} (record_of [(''Application Closes'', ''1970-01-22'')]))
     badge_markup"
  using
    deadline_badge_past [of "record_of [(''Application Closes'', ''1970-01-22'')]"
      "''1970-01-22''" example_parse 1814400000 86400000000 "{}"]
  by (simp add: record_of_def example_parse_def)

section \<open>Escaping\<close>























text \<open>
  The identifier of a record is the one value that \<open>renderCard\<close> inserts as it is, into
  the two \<open>data-fav\<close> attributes: the card contains it unescaped.
\<close>

lemma renderCard_includes_row_id: "str_includes (renderCard parse now FAVS r) (row_id r)"
proof -
  let ?l = "''      <button class=\"favorite\" title=\"Save to favorites\" data-fav=\"'' @ row_id r
    @ ''\" data-saved=\"'' @ (if row_id r \<in> FAVS then ''true'' else ''false'') @ ''\">''
    @ [CHR 0xE2, CHR 0xAD, CHR 0x90] @ ''</button>''"
  have "str_includes ?l (row_id r)"
    by (rule str_includes_appendI)
  then show ?thesis
    unfolding renderCard_def Let_def
    by (rule str_includes_join_lines [rotated]) simp
qed

section \<open>The dataset normaliser\<close>

lemma buildId_no_fields: "buildId (\<lambda>h. None) = ''|''"
  by (simp add: buildId_def normalize_def or_empty_def toLowerCase_def)

lemma copy_fields_no_headers: "copy_fields [] r = (\<lambda>h. None)"
  by (simp add: copy_fields_def)

text \<open>
  C3, as the code has it. A payload with no row list gives the empty record sequence. A
  payload with no field-name list gives one record for every raw row, each with no field
  and the identifier \<open>|\<close>. The normaliser has no failing branch for either.
\<close>

theorem normalizer_malformed:
  "(data json = None \<longrightarrow> init_RAW json = []) \<and>
   (headers json = None \<longrightarrow>
      init_RAW json =
        map (\<lambda>r. \<lparr>field = (\<lambda>h. None), row_id = ''|''\<rparr>) (case data json of None \<Rightarrow> [] | Some d \<Rightarrow> d))"
  by (simp add: init_RAW_def copy_fields_no_headers buildId_no_fields)

theorem normalizer_malformed_witness:
  "init_RAW \<lparr>headers = Some [''Scholarship Name''], data = None\<rparr> = [] \<and>
   init_RAW \<lparr>headers = None, data = Some [map_of [(''Scholarship Name'', ''A'')]]\<rparr> =
     [\<lparr>field = (\<lambda>h. None), row_id = ''|''\<rparr>]"
  using normalizer_malformed [of "\<lparr>headers = Some [''Scholarship Name''], data = None\<rparr>"]
    normalizer_malformed [of "\<lparr>headers = None, data = Some [map_of [(''Scholarship Name'', ''A'')]]\<rparr>"]
  by simp

text \<open>
  C3 as stated fails: a payload with a row and no field-name list does not give the empty
  record sequence.
\<close>

theorem normalizer_missing_headers_counterexample:
  "headers \<lparr>headers = None, data = Some [map_of [(''Scholarship Name'', ''A'')]]\<rparr> = None \<and>
   init_RAW \<lparr>headers = None, data = Some [map_of [(''Scholarship Name'', ''A'')]]\<rparr> \<noteq> []"
  by (simp add: init_RAW_def)

section \<open>The citizenship predicate\<close>

lemma str_includes_toLowerCase:
  "str_includes s sub \<Longrightarrow> str_includes (toLowerCase s) (toLowerCase sub)"
  unfolding str_includes_iff toLowerCase_def by (metis map_append)

lemma toLowerCase_US_citizen: "toLowerCase ''US citizen'' = ''us citizen''"
  by code_simp

lemma test_alternativesI: "alt \<in> set alts \<Longrightarrow> str_includes s alt \<Longrightarrow> test_alternatives alts s"
  by (auto simp: test_alternatives_def list_ex_iff)

lemma normalize_None: "normalize None = []"
  by (simp add: normalize_def or_empty_def toLowerCase_def)

lemma test_alternatives_empty_text:
  "\<not> test_alternatives strict_exclusion_pattern []"
  "\<not> test_alternatives strict_requirement_pattern []"
  by (simp_all add: test_alternatives_def strict_exclusion_pattern_def strict_requirement_pattern_def)

lemma filterRows_citizenship_only:
  "filterRows \<lparr>year_value = [], nonUS_value = mode, degree_value = [], search_value = [],
      sort_value = order\<rparr> rows = filter (usMatch mode) rows"
  by (simp add: filterRows_def yrMatch_def degMatch_def qMatch_def normalize_def or_empty_def
      toLowerCase_def)

text \<open>
  C1, as the code has it. With the selector at \<open>yes\<close> (non-US-inclusive) a record matches
  exactly when its lower-cased citizenship text matches the inclusive pattern or does not
  match the strict-exclusion pattern; at \<open>no\<close> (US-only) exactly when it matches the
  strict-requirement pattern; at \<open>any\<close> always. A record with no citizenship field
  matches \<open>yes\<close> and not \<open>no\<close>. A record whose text contains \<open>US citizen\<close> matches
  \<open>no\<close>, and matches \<open>yes\<close> exactly when its text matches the inclusive pattern as well.
\<close>

theorem citizenship_predicate:
  "(usMatch ''yes'' r \<longleftrightarrow>
      test_alternatives inclusive_pattern (normalize (field r ''Eligibility - USA Citizenship'')) \<or>
      \<not> test_alternatives strict_exclusion_pattern (normalize (field r ''Eligibility - USA Citizenship''))) \<and>
   (usMatch ''no'' r \<longleftrightarrow>
      test_alternatives strict_requirement_pattern (normalize (field r ''Eligibility - USA Citizenship''))) \<and>
   usMatch ''any'' r \<and>
   (field r ''Eligibility - USA Citizenship'' = None \<longrightarrow> usMatch ''yes'' r \<and> \<not> usMatch ''no'' r) \<and>
   (\<forall>str. field r ''Eligibility - USA Citizenship'' = Some str \<and> str_includes str ''US citizen'' \<longrightarrow>
      usMatch ''no'' r \<and>
      (usMatch ''yes'' r \<longleftrightarrow> test_alternatives inclusive_pattern (toLowerCase str)))"
proof -
  let ?t = "normalize (field r ''Eligibility - USA Citizenship'')"
  have yes: "usMatch ''yes'' r \<longleftrightarrow>
      test_alternatives inclusive_pattern ?t \<or> \<not> test_alternatives strict_exclusion_pattern ?t"
    by (simp add: usMatch_def Let_def)
  have no: "usMatch ''no'' r \<longleftrightarrow> test_alternatives strict_requirement_pattern ?t"
    by (simp add: usMatch_def)
  have any: "usMatch ''any'' r"
    by (simp add: usMatch_def)
  have absent: "usMatch ''yes'' r \<and> \<not> usMatch ''no'' r"
    if "field r ''Eligibility - USA Citizenship'' = None"
    using that yes no by (simp add: normalize_None test_alternatives_empty_text)
  have citizen: "usMatch ''no'' r \<and>
      (usMatch ''yes'' r \<longleftrightarrow> test_alternatives inclusive_pattern (toLowerCase str))"
    if f: "field r ''Eligibility - USA Citizenship'' = Some str" and inc: "str_includes str ''US citizen''"
    for str
  proof -
    have t: "?t = toLowerCase str" using f by (simp add: normalize_def or_empty_def)
    have low: "str_includes (toLowerCase str) ''us citizen''"
      using str_includes_toLowerCase [OF inc] by (simp only: toLowerCase_US_citizen)
    have "test_alternatives strict_requirement_pattern (toLowerCase str)"
      by (rule test_alternativesI [OF _ low]) (simp add: strict_requirement_pattern_def)
    moreover have "test_alternatives strict_exclusion_pattern (toLowerCase str)"
      by (rule test_alternativesI [OF _ low]) (simp add: strict_exclusion_pattern_def)
    ultimately show ?thesis using yes no t by simp
  qed
  from yes no any absent citizen show ?thesis by blast
qed

theorem citizenship_predicate_witness:
  "usMatch ''yes'' (record_of []) \<and> \<not> usMatch ''no'' (record_of []) \<and>
   usMatch ''no'' (record_of [(''Eligibility - USA Citizenship'', ''US citizens only'')]) \<and>
   \<not> usMatch ''yes'' (record_of [(''Eligibility - USA Citizenship'', ''US citizens only'')])"
proof -
  let ?r = "record_of [(''Eligibility - USA Citizenship'', ''US citizens only'')]"
  have absent: "field (record_of []) ''Eligibility - USA Citizenship'' = None"
    by (simp add: record_of_def)
  have present: "field ?r ''Eligibility - USA Citizenship'' = Some ''US citizens only''"
    by (simp add: record_of_def)
  have contains: "str_includes ''US citizens only'' ''US citizen''"
    by code_simp
  have not_inclusive: "\<not> test_alternatives inclusive_pattern (toLowerCase ''US citizens only'')"
    by code_simp
  from citizenship_predicate [of "record_of []"] citizenship_predicate [of ?r]
    absent present contains not_inclusive
  show ?thesis by blast
qed

text \<open>
  C1 as stated fails in its last part: a text that contains \<open>US citizen\<close> and names DACA
  recipients too matches non-US-inclusive as well as US-only.
\<close>

theorem citizenship_predicate_counterexample:
  "str_includes ''US citizens or DACA recipients'' ''US citizen'' \<and>
   usMatch ''no'' (record_of [(''Eligibility - USA Citizenship'', ''US citizens or DACA recipients'')]) \<and>
   usMatch ''yes'' (record_of [(''Eligibility - USA Citizenship'', ''US citizens or DACA recipients'')])"
  by code_simp

section \<open>Sorting\<close>

lemma insert_sorted_insort_key:
  assumes "\<And>x y. is_positive (comparefn x y) \<longleftrightarrow> key y < key x"
  shows "insert_sorted comparefn x ys = insort_key key x ys"
  by (induction ys) (auto simp: assms not_less)

lemma array_sort_sort_key:
  assumes "\<And>x y. is_positive (comparefn x y) \<longleftrightarrow> key y < key x"
  shows "array_sort comparefn xs = sort_key key xs"
proof -
  have "insert_sorted comparefn = insort_key key"
    by (intro ext) (rule insert_sorted_insort_key [OF assms])
  then show ?thesis by (simp add: array_sort_def sort_key_def)
qed


lemma closesAsc_positive:
  "is_positive (closesAsc parse x y) \<longleftrightarrow> closing_key parse y < closing_key parse x"
  by (simp add: closesAsc_def date_or_Infinity_def closing_key_def closing_def is_positive_def
      split: option.splits)


lemma sort_rows_closesAsc:
  "sort_rows lc parse ''closesAsc'' rows = sort_key (closing_key parse) rows"
  by (simp add: sort_rows_def
      array_sort_sort_key [of "closesAsc parse" "closing_key parse"] closesAsc_positive)



lemma closing_key_eq: "closing_key parse a = closing_key parse b \<longleftrightarrow> closing parse a = closing parse b"
  by (auto simp: closing_key_def split: option.splits)

lemma closing_key_le:
  "closing_key parse a \<le> closing_key parse b \<longleftrightarrow>
     (case closing parse a of
        None \<Rightarrow> closing parse b = None
      | Some x \<Rightarrow> (case closing parse b of None \<Rightarrow> True | Some y \<Rightarrow> x \<le> y))"
  by (auto simp: closing_key_def split: option.splits)






text \<open>
  C5. The closing-date-ascending sort returns the records it was given; no record with a
  parseable closing date comes after a record whose closing date is absent or
  unparseable; the parseable closing dates are in ascending order; and the records with
  one and the same closing date, as well as those with none, keep their relative order.
\<close>

theorem closing_date_ascending_sort:
  "mset (sort_rows lc parse ''closesAsc'' rows) = mset rows \<and>
   sorted_wrt (\<lambda>a b. closing parse a = None \<longrightarrow> closing parse b = None)
     (sort_rows lc parse ''closesAsc'' rows) \<and>
   sorted_wrt (\<lambda>a b. \<forall>x y. closing parse a = Some x \<and> closing parse b = Some y \<longrightarrow> x \<le> y)
     (sort_rows lc parse ''closesAsc'' rows) \<and>
   filter (\<lambda>r. closing parse r = d) (sort_rows lc parse ''closesAsc'' rows) =
     filter (\<lambda>r. closing parse r = d) rows"
proof -
  let ?out = "sort_key (closing_key parse) rows"
  have "sorted (map (closing_key parse) ?out)"
    by (rule sorted_sort_key)
  then have le: "sorted_wrt (\<lambda>a b. closing_key parse a \<le> closing_key parse b) ?out"
    by (simp add: sorted_map)
  have "sorted_wrt (\<lambda>a b. closing parse a = None \<longrightarrow> closing parse b = None) ?out"
    by (rule sorted_wrt_mono_rel [OF _ le]) (auto simp: closing_key_le split: option.splits)
  moreover have "sorted_wrt (\<lambda>a b. \<forall>x y. closing parse a = Some x \<and> closing parse b = Some y \<longrightarrow> x \<le> y) ?out"
    by (rule sorted_wrt_mono_rel [OF _ le]) (auto simp: closing_key_le split: option.splits)
  moreover have "filter (\<lambda>r. closing parse r = d) ?out = filter (\<lambda>r. closing parse r = d) rows"
  proof -
    define k where "k = (case d of None \<Rightarrow> (True, 0::int) | Some x \<Rightarrow> (False, x))"
    have "(closing parse r = d) = (closing_key parse r = k)" for r
      by (auto simp: closing_key_def k_def split: option.splits)
    then show ?thesis
      using sort_key_stable [of "closing_key parse" k rows] by simp
  qed
  ultimately show ?thesis
    by (simp add: sort_rows_closesAsc)
qed

theorem closing_date_ascending_sort_witness:
  "sort_rows (\<lambda>a b. 0) example_parse ''closesAsc''
     [record_of [(''Application Closes'', ''TBD'')],
      record_of [(''Application Closes'', ''1970-01-23'')],
      record_of [],
      record_of [(''Application Closes'', ''1970-01-22'')]] =
     [record_of [(''Application Closes'', ''1970-01-22'')],
      record_of [(''Application Closes'', ''1970-01-23'')],
      record_of [(''Application Closes'', ''TBD'')],
      record_of []]"
  using closing_date_ascending_sort [of "\<lambda>a b. 0" example_parse
      "[record_of [(''Application Closes'', ''TBD'')],
        record_of [(''Application Closes'', ''1970-01-23'')],
        record_of [],
        record_of [(''Application Closes'', ''1970-01-22'')]]" None]
  by (simp add: sort_rows_def array_sort_def closesAsc_def date_or_Infinity_def safeDate_def
      record_of_def example_parse_def is_positive_def)

section \<open>The favourites store and the toggle\<close>

lemma withStore_Inr:
  "withStore outcome fn db = (Inr res, db') \<longleftrightarrow> outcome = Completes \<and> fn db = (res, db')"
  by (cases outcome) (auto simp: withStore_def split: prod.splits)

lemma withStore_Inl:
  "withStore outcome fn db = (Inl e, db') \<longleftrightarrow>
     db' = db \<and> (outcome = OpenFails \<and> e = OpenError \<or> outcome = TransactionFails \<and> e = TransactionError)"
  by (cases outcome) (auto simp: withStore_def split: prod.splits)

lemma filter_insort_key_only:
  "P x \<Longrightarrow> (\<forall>y \<in> set xs. \<not> P y) \<Longrightarrow> filter P (insort_key f x xs) = [x]"
  by (induction xs) auto

lemma filter_store_put_same:
  "filter (\<lambda>f. fav_id f = fav_id fav) (store_put fav s) = [fav]"
  unfolding store_put_def by (rule filter_insort_key_only) auto

lemma filter_store_delete_same: "filter (\<lambda>f. fav_id f = k) (store_delete k s) = []"
  by (simp add: store_delete_def)

text \<open>
  C7. When an add of a favourite has completed, a completed list operation returns a
  sequence with exactly one entry that has the identifier of the favourite, the favourite
  itself; when a remove of that identifier has completed after it, a completed list
  operation returns a sequence with no entry that has the identifier.
\<close>

theorem favorites_round_trip:
  assumes "FavDB_add o1 fav db = (Inr u1, db1)"
    and "FavDB_getAll o2 db1 = (Inr xs, db2)"
    and "FavDB_remove o3 (fav_id fav) db2 = (Inr u3, db3)"
    and "FavDB_getAll o4 db3 = (Inr ys, db4)"
  shows "filter (\<lambda>f. fav_id f = fav_id fav) xs = [fav] \<and>
         length (filter (\<lambda>f. fav_id f = fav_id fav) xs) = 1 \<and>
         filter (\<lambda>f. fav_id f = fav_id fav) ys = []"
proof -
  from assms(1) have db1: "db1 = store_put fav db"
    by (auto simp: FavDB_add_def withStore_Inr)
  from assms(2) have xs: "xs = db1" "db2 = db1"
    by (auto simp: FavDB_getAll_def withStore_Inr)
  from assms(3) have db3: "db3 = store_delete (fav_id fav) db2"
    by (auto simp: FavDB_remove_def withStore_Inr)
  from assms(4) have ys: "ys = db3"
    by (auto simp: FavDB_getAll_def withStore_Inr)
  show ?thesis
    by (simp add: db1 xs db3 ys filter_store_put_same filter_store_delete_same)
qed

theorem favorites_round_trip_witness:
  "FavDB_add Completes (example_favorite 1) [] = (Inr (), [example_favorite 1]) \<and>
   FavDB_getAll Completes [example_favorite 1] = (Inr [example_favorite 1], [example_favorite 1]) \<and>
   FavDB_remove Completes (fav_id (example_favorite 1)) [example_favorite 1] = (Inr (), []) \<and>
   FavDB_getAll Completes [] = (Inr [], []) \<and>
   filter (\<lambda>f. fav_id f = fav_id (example_favorite 1)) [example_favorite 1] = [example_favorite 1]"
proof -
  have a: "FavDB_add Completes (example_favorite 1) [] = (Inr (), [example_favorite 1])"
    by (simp add: FavDB_add_def withStore_def store_put_def)
  have b: "FavDB_getAll Completes [example_favorite 1] = (Inr [example_favorite 1], [example_favorite 1])"
    by (simp add: FavDB_getAll_def withStore_def)
  have c: "FavDB_remove Completes (fav_id (example_favorite 1)) [example_favorite 1] = (Inr (), [])"
    by (simp add: FavDB_remove_def withStore_def store_delete_def)
  have d: "FavDB_getAll Completes [] = (Inr [], [])"
    by (simp add: FavDB_getAll_def withStore_def)
  from favorites_round_trip [OF a b c d] a b c d show ?thesis by simp
qed

lemma map_insort_key: "map f (insort_key f x xs) = insort (f x) (map f xs)"
  by (induction xs) auto

lemma store_ok_put: "store_ok s \<Longrightarrow> store_ok (store_put fav s)"
proof -
  assume ok: "store_ok s"
  let ?rest = "filter (\<lambda>f. fav_id f \<noteq> fav_id fav) s"
  have "sorted (map fav_id ?rest)" "distinct (map fav_id ?rest)"
    using ok by (simp_all add: store_ok_def sorted_filter distinct_map_filter)
  moreover have "fav_id fav \<notin> set (map fav_id ?rest)" by auto
  ultimately show ?thesis
    by (simp add: store_ok_def store_put_def map_insort_key sorted_insort distinct_insort)
qed

lemma store_ok_delete: "store_ok s \<Longrightarrow> store_ok (store_delete k s)"
  by (simp add: store_ok_def store_delete_def sorted_filter distinct_map_filter)

lemma ids_store_put: "fav_id ` set (store_put fav s) = insert (fav_id fav) (fav_id ` set s)"
  by (auto simp: store_put_def set_insort_key)

lemma filter_insort_key_skip: "\<not> P x \<Longrightarrow> filter P (insort_key f x xs) = filter P xs"
  by (induction xs) auto

lemma others_store_put:
  "filter (\<lambda>f. fav_id f \<noteq> fav_id fav) (store_put fav s) = filter (\<lambda>f. fav_id f \<noteq> fav_id fav) s"
  by (simp add: store_put_def filter_insort_key_skip)

lemma distinct_keys_tail: "distinct (map f (y # ys)) \<Longrightarrow> z \<in> set ys \<Longrightarrow> f z \<noteq> f y"
proof
  assume d: "distinct (map f (y # ys))" and z: "z \<in> set ys" and eq: "f z = f y"
  from z have "f z \<in> f ` set ys" by (rule imageI)
  with eq d show False by simp
qed

lemma length_filter_other:
  "distinct (map f xs) \<Longrightarrow> k \<in> f ` set xs \<Longrightarrow> Suc (length (filter (\<lambda>y. f y \<noteq> k) xs)) = length xs"
proof (induction xs)
  case Nil
  then show ?case by simp
next
  case (Cons y ys)
  show ?case
  proof (cases "f y = k")
    case True
    have "\<forall>z \<in> set ys. f z \<noteq> k"
      using True distinct_keys_tail [OF Cons.prems(1)] by simp
    then have "filter (\<lambda>y. f y \<noteq> k) ys = ys" by (simp add: filter_id_conv)
    with True show ?thesis by simp
  next
    case False
    with Cons show ?thesis by auto
  qed
qed

lemma length_store_put:
  "store_ok s \<Longrightarrow> fav_id fav \<in> fav_id ` set s \<Longrightarrow> length (store_put fav s) = length s"
  using length_filter_other [of fav_id s "fav_id fav"]
  by (simp add: store_put_def store_ok_def)

lemma insort_key_back:
  "sorted (map f xs) \<Longrightarrow> distinct (map f xs) \<Longrightarrow> x \<in> set xs \<Longrightarrow>
   insort_key f x (filter (\<lambda>y. f y \<noteq> f x) xs) = xs"
proof (induction xs)
  case Nil
  then show ?case by simp
next
  case (Cons y ys)
  show ?case
  proof (cases "y = x")
    case True
    have "\<forall>z \<in> set ys. f z \<noteq> f x"
      using True distinct_keys_tail [OF Cons.prems(2)] by simp
    then have "filter (\<lambda>y. f y \<noteq> f x) ys = ys" by (simp add: filter_id_conv)
    moreover have "insort_key f x ys = x # ys"
      using Cons.prems True by (intro insort_is_Cons) auto
    ultimately show ?thesis using True by simp
  next
    case False
    with Cons.prems have x: "x \<in> set ys" by simp
    have ne: "f y \<noteq> f x"
      using distinct_keys_tail [OF Cons.prems(2) x] by simp
    from Cons.prems x have "f y \<le> f x" by auto
    with ne have "\<not> f x \<le> f y" by simp
    moreover have "insort_key f x (filter (\<lambda>y. f y \<noteq> f x) ys) = ys"
      using Cons.prems x by (intro Cons.IH) auto
    ultimately show ?thesis using ne by simp
  qed
qed

lemma store_put_same: "store_ok s \<Longrightarrow> fav \<in> set s \<Longrightarrow> store_put fav s = s"
  by (simp add: store_put_def store_ok_def insort_key_back)

lemma store_delete_absent: "k \<notin> fav_id ` set s \<Longrightarrow> store_delete k s = s"
  by (auto simp: store_delete_def filter_id_conv)

text \<open>
  C6, as the code has it, for a store that holds one entry for a key, in key order. A
  completed add of a favourite whose identifier is present raises no error, leaves the set
  of stored identifiers, the number of entries and every entry with another identifier as
  they are, and leaves exactly one entry with the identifier, the favourite added: it
  replaces the entry stored before, so that the store is unchanged when that entry is the
  favourite added. A completed remove of an identifier that is absent leaves the store
  unchanged. The branch of the handler that adds leaves the set \<open>FAVORITES\<close> unchanged
  when the identifier is in it, and the branch that removes when it is not.
\<close>

theorem favorites_store_idempotence:
  assumes "store_ok db"
  shows "(fav_id fav \<in> fav_id ` set db \<longrightarrow>
            FavDB_add Completes fav db = (Inr (), store_put fav db) \<and>
            fav_id ` set (store_put fav db) = fav_id ` set db \<and>
            length (store_put fav db) = length db \<and>
            store_ok (store_put fav db) \<and>
            filter (\<lambda>f. fav_id f = fav_id fav) (store_put fav db) = [fav] \<and>
            filter (\<lambda>f. fav_id f \<noteq> fav_id fav) (store_put fav db) =
              filter (\<lambda>f. fav_id f \<noteq> fav_id fav) db \<and>
            (fav \<in> set db \<longrightarrow> store_put fav db = db)) \<and>
         (k \<notin> fav_id ` set db \<longrightarrow> FavDB_remove Completes k db = (Inr (), db)) \<and>
         (k \<in> FAVORITES pg \<longrightarrow> FAVORITES (snd (add_branch outcome now row k pg)) = FAVORITES pg) \<and>
         (k \<notin> FAVORITES pg \<longrightarrow> FAVORITES (snd (remove_branch outcome k pg)) = FAVORITES pg)"
proof -
  have add: "FavDB_add Completes fav db = (Inr (), store_put fav db)"
    by (simp add: FavDB_add_def withStore_def)
  have ids: "fav_id ` set (store_put fav db) = fav_id ` set db" if "fav_id fav \<in> fav_id ` set db"
    using that by (auto simp: ids_store_put)
  have rem: "FavDB_remove Completes k db = (Inr (), db)" if "k \<notin> fav_id ` set db"
    using that by (simp add: FavDB_remove_def withStore_def store_delete_absent)
  have mem_add: "FAVORITES (snd (add_branch outcome now row k pg)) = FAVORITES pg" if "k \<in> FAVORITES pg"
    using that by (auto simp: add_branch_def insert_absorb split: option.splits prod.splits sum.splits)
  have mem_rem: "FAVORITES (snd (remove_branch outcome k pg)) = FAVORITES pg" if "k \<notin> FAVORITES pg"
    using that by (auto simp: remove_branch_def split: prod.splits sum.splits)
  show ?thesis
    using assms add ids rem mem_add mem_rem
      length_store_put [of db fav] store_ok_put [of db fav] filter_store_put_same [of fav db]
      others_store_put [of fav db] store_put_same [of db fav]
    by blast
qed

theorem favorites_store_idempotence_witness:
  "store_ok [example_favorite 1] \<and>
   FavDB_add Completes (example_favorite 2) [example_favorite 1] = (Inr (), [example_favorite 2]) \<and>
   FavDB_add Completes (example_favorite 1) [example_favorite 1] = (Inr (), [example_favorite 1]) \<and>
   FavDB_remove Completes ''essay prize|'' [example_favorite 1] = (Inr (), [example_favorite 1])"
proof -
  have ok: "store_ok [example_favorite 1]"
    by (simp add: store_ok_def)
  have put2: "store_put (example_favorite 2) [example_favorite 1] = [example_favorite 2]"
    by (simp add: store_put_def example_favorite_def)
  have present: "fav_id (example_favorite 2) \<in> fav_id ` set [example_favorite 1]"
    "fav_id (example_favorite 1) \<in> fav_id ` set [example_favorite 1]"
    "example_favorite 1 \<in> set [example_favorite 1]"
    by (simp_all add: example_favorite_def)
  have absent: "''essay prize|'' \<notin> fav_id ` set [example_favorite 1]"
    by (simp add: example_favorite_def)
  from favorites_store_idempotence [OF ok, of "example_favorite 2" "''essay prize|''"]
    favorites_store_idempotence [OF ok, of "example_favorite 1" "''essay prize|''"]
    ok put2 present absent
  show ?thesis by simp
qed

text \<open>
  C6 as stated fails: the handler stores the time of the click with the favourite, and
  adding a favourite with the identifier of a stored one and a later time changes the
  contents of the store.
\<close>

theorem favorites_store_idempotence_counterexample:
  "store_ok [example_favorite 1] \<and>
   fav_id (example_favorite 2) \<in> fav_id ` set [example_favorite 1] \<and>
   snd (FavDB_add Completes (example_favorite 2) [example_favorite 1]) \<noteq> [example_favorite 1]"
  by (simp add: store_ok_def example_favorite_def FavDB_add_def withStore_def store_put_def)

lemma FavDB_reject_store:
  "FavDB_remove outcome k db = (Inl e, db') \<Longrightarrow> db' = db"
  "FavDB_add outcome fav db = (Inl e, db') \<Longrightarrow> db' = db"
  by (simp_all add: FavDB_remove_def FavDB_add_def withStore_Inl)

text \<open>
  C2. When the remove of the store is rejected for a saved identifier, or the add for an
  identifier that is not saved and has a record, the click handler ends rejected with the
  error of the store, and the page is as before: the set \<open>FAVORITES\<close>, the attribute
  \<open>data-saved\<close> of the button, the store, the cards and the count text.
\<close>

theorem toggle_rejected_leaves_state:
  "(k \<in> FAVORITES pg \<and> fst (FavDB_remove outcome k (favorites_store pg)) = Inl e \<longrightarrow>
      click_handler outcome now rows RAW k pg = (Rejected e, pg)) \<and>
   (k \<notin> FAVORITES pg \<and> find_row rows RAW k = Some r \<and>
    fst (FavDB_add outcome \<lparr>fav_id = k, fav_name = field r ''Scholarship Name'', savedAt = now\<rparr>
           (favorites_store pg)) = Inl e \<longrightarrow>
      click_handler outcome now rows RAW k pg = (Rejected e, pg))"
proof (intro conjI impI)
  assume a: "k \<in> FAVORITES pg \<and> fst (FavDB_remove outcome k (favorites_store pg)) = Inl e"
  then obtain db where r: "FavDB_remove outcome k (favorites_store pg) = (Inl e, db)"
    by (cases "FavDB_remove outcome k (favorites_store pg)") auto
  then have "db = favorites_store pg" by (rule FavDB_reject_store)
  with r have "remove_branch outcome k pg = (Rejected e, pg)"
    by (simp add: remove_branch_def)
  with a show "click_handler outcome now rows RAW k pg = (Rejected e, pg)"
    by (simp add: click_handler_def)
next
  let ?fav = "\<lparr>fav_id = k, fav_name = field r ''Scholarship Name'', savedAt = now\<rparr>"
  assume a: "k \<notin> FAVORITES pg \<and> find_row rows RAW k = Some r \<and>
    fst (FavDB_add outcome ?fav (favorites_store pg)) = Inl e"
  then obtain db where r: "FavDB_add outcome ?fav (favorites_store pg) = (Inl e, db)"
    by (cases "FavDB_add outcome ?fav (favorites_store pg)") auto
  then have "db = favorites_store pg" by (rule FavDB_reject_store)
  with r have "add_branch outcome now (Some r) k pg = (Rejected e, pg)"
    by (simp add: add_branch_def)
  with a show "click_handler outcome now rows RAW k pg = (Rejected e, pg)"
    by (simp add: click_handler_def)
qed

theorem toggle_rejected_leaves_state_witness:
  "''stem award|1970-01-22'' \<in> FAVORITES example_page \<and>
   fst (FavDB_remove TransactionFails ''stem award|1970-01-22'' (favorites_store example_page))
     = Inl TransactionError \<and>
   click_handler TransactionFails 2 [] [] ''stem award|1970-01-22'' example_page
     = (Rejected TransactionError, example_page) \<and>
   ''essay prize|'' \<notin> FAVORITES example_page \<and>
   find_row [record_of [(''Scholarship Name'', ''Essay Prize'')]] [] ''essay prize|''
     = Some (record_of [(''Scholarship Name'', ''Essay Prize'')]) \<and>
   click_handler OpenFails 2 [record_of [(''Scholarship Name'', ''Essay Prize'')]] [] ''essay prize|''
     example_page = (Rejected OpenError, example_page)"
proof -
  let ?r = "record_of [(''Scholarship Name'', ''Essay Prize'')]"
  have id: "row_id ?r = ''essay prize|''"
    by code_simp
  have found: "find_row [?r] [] ''essay prize|'' = Some ?r"
    by (simp add: find_row_def id)
  have rem: "fst (FavDB_remove TransactionFails ''stem award|1970-01-22'' (favorites_store example_page))
      = Inl TransactionError"
    by (simp add: FavDB_remove_def withStore_def)
  have add: "fst (FavDB_add OpenFails \<lparr>fav_id = ''essay prize|'', fav_name = field ?r ''Scholarship Name'',
      savedAt = 2\<rparr> (favorites_store example_page)) = Inl OpenError"
    by (simp add: FavDB_add_def withStore_def)
  have mem: "''stem award|1970-01-22'' \<in> FAVORITES example_page"
    "''essay prize|'' \<notin> FAVORITES example_page"
    by (simp_all add: example_page_def)
  from toggle_rejected_leaves_state [of "''stem award|1970-01-22''" example_page TransactionFails
      TransactionError 2 "[]" "[]"]
    toggle_rejected_leaves_state [of "''essay prize|''" example_page OpenFails OpenError 2 "[?r]" "[]" ?r]
    found rem add mem
  show ?thesis by simp
qed

end
